theory Spec2Isabelle
  imports Complex_Main
begin

section \<open>Python values used by run.py\<close>

text \<open>
  The scraper is Python 3 (its source holds the pound sign in plain string literals and
  divides with \<open>/\<close>). A Python \<open>str\<close> is a sequence of code points; here a
  \<open>string\<close> is a list of 8-bit characters, each read as the code point of the same
  number, so the model covers the strings over U+0000..U+00FF. The pound sign is one
  character, U+00A3.
\<close>

datatype error =
    ValueError | OverflowError | ZeroDivisionError | TypeError
  | IndexError | KeyError | AssertionError | HTTPError

definition bindE :: "error + 'a \<Rightarrow> ('a \<Rightarrow> error + 'b) \<Rightarrow> error + 'b" where
  "bindE m f = (case m of Inl e \<Rightarrow> Inl e | Inr v \<Rightarrow> f v)"

definition pound :: char where
  "pound = CHR 0xA3"

definition newline :: char where
  "newline = CHR 0x0A"

subsection \<open>str.strip, str.replace, str.lower, substring test\<close>

text \<open>
  \<open>str.strip()\<close> removes the characters for which \<open>str.isspace\<close> holds; below U+0100
  these are U+0009..U+000D, U+001C..U+0020, U+0085 and U+00A0.
\<close>

definition is_space :: "char \<Rightarrow> bool" where
  "is_space c = (let n = (of_char c :: int) in
     (9 \<le> n \<and> n \<le> 13) \<or> (28 \<le> n \<and> n \<le> 32) \<or> n = 133 \<or> n = 160)"

definition strip :: "string \<Rightarrow> string" where
  "strip s = rev (dropWhile is_space (rev (dropWhile is_space s)))"

text \<open>\<open>s.replace(',', '')\<close> deletes every comma.\<close>

definition remove_commas :: "string \<Rightarrow> string" where
  "remove_commas s = filter (\<lambda>c. c \<noteq> CHR '','') s"

text \<open>
  \<open>str.lower()\<close> below U+0100: A..Z, and the Latin-1 capitals U+00C0..U+00DE other than
  the multiplication sign U+00D7, move up by 32; every other character stays.
\<close>

definition lower_char :: "char \<Rightarrow> char" where
  "lower_char c = (let n = (of_char c :: int) in
     if (65 \<le> n \<and> n \<le> 90) \<or> (192 \<le> n \<and> n \<le> 222 \<and> n \<noteq> 215)
     then char_of (n + 32) else c)"

definition lower :: "string \<Rightarrow> string" where
  "lower s = map lower_char s"

fun starts_with :: "string \<Rightarrow> string \<Rightarrow> bool" where
  "starts_with [] s = True"
| "starts_with (p # ps) [] = False"
| "starts_with (p # ps) (c # cs) = (p = c \<and> starts_with ps cs)"

text \<open>\<open>needle in s\<close> for two strings.\<close>

fun contains :: "string \<Rightarrow> string \<Rightarrow> bool" where
  "contains needle [] = (needle = [])"
| "contains needle (c # cs) = (starts_with needle (c # cs) \<or> contains needle cs)"

subsection \<open>Floats\<close>

text \<open>
  A Python float is an IEEE 754 binary64 number. A finite one is kept as the rational it
  denotes (the two zeros are one value here: nothing below tells them apart).
  The arithmetic of rounding is done on fractions \<open>(n, d)\<close> of integers, read
  \<open>n / d\<close>, with \<open>n \<ge> 0\<close> and \<open>d > 0\<close>.
\<close>

datatype pyfloat = Finite rat | PInf | NInf | NaN

type_synonym frac = "int \<times> int"

text \<open>The number of binary digits of a positive integer.\<close>

function bitlen :: "int \<Rightarrow> int" where
  "bitlen n = (if n \<le> 0 then 0 else 1 + bitlen (n div 2))"
  by pat_completeness auto
termination
  by (relation "measure nat") auto

text \<open>\<open>shift2 f k\<close> is \<open>f * 2 ^ k\<close>, for any integer \<open>k\<close>.\<close>

definition shift2 :: "frac \<Rightarrow> int \<Rightarrow> frac" where
  "shift2 f k = (case f of (n, d) \<Rightarrow>
     if 0 \<le> k then (n * 2 ^ nat k, d) else (n, d * 2 ^ nat (- k)))"

text \<open>The exponent \<open>e\<close> with \<open>2 ^ e \<le> n / d < 2 ^ (e + 1)\<close>, for \<open>n > 0\<close>.\<close>

definition ilog2 :: "frac \<Rightarrow> int" where
  "ilog2 f = (case f of (n, d) \<Rightarrow>
     let e0 = bitlen n - bitlen d in
     (case shift2 (n, d) (- e0) of (a, b) \<Rightarrow> if b \<le> a then e0 else e0 - 1))"

text \<open>The integer nearest to \<open>a / b\<close>, the even one of the two when it is halfway.\<close>

definition round_half_even :: "frac \<Rightarrow> int" where
  "round_half_even f = (case f of (a, b) \<Rightarrow>
     let q = a div b; r = a mod b in
     if 2 * r < b then q
     else if b < 2 * r then q + 1
     else if even q then q else q + 1)"

text \<open>
  Rounding a non-negative fraction to the nearest binary64 magnitude: the significand has
  53 bits, so the spacing at exponent \<open>e\<close> is \<open>2 ^ (e - 52)\<close>; below \<open>2 ^ -1022\<close> the
  spacing stays \<open>2 ^ -1074\<close> (subnormal numbers); a rounded magnitude of \<open>2 ^ 1024\<close> or
  more is an overflow, \<open>None\<close>.
\<close>

definition round_magnitude :: "frac \<Rightarrow> frac option" where
  "round_magnitude f =
     (if fst f = 0 then Some (0, 1)
      else let e = max (ilog2 f) (- 1022);
               m = round_half_even (shift2 f (52 - e));
               r = shift2 (m, 1) (e - 52)
           in if 2 ^ 1024 * snd r \<le> fst r then None else Some r)"

definition round_double :: "rat \<Rightarrow> pyfloat" where
  "round_double x =
     (case quotient_of x of (p, q) \<Rightarrow>
        (case round_magnitude (\<bar>p\<bar>, q) of
           None \<Rightarrow> if p < 0 then NInf else PInf
         | Some (n, d) \<Rightarrow> Finite (Fract (if p < 0 then - n else n) d)))"

subsection \<open>float(str)\<close>

definition is_digit :: "char \<Rightarrow> bool" where
  "is_digit c = (c \<in> set ''0123456789'')"

definition digit_val :: "char \<Rightarrow> int" where
  "digit_val c = of_char c - 48"

text \<open>The number a string of decimal digits denotes; the empty string denotes 0.\<close>

definition digits_val :: "string \<Rightarrow> int" where
  "digits_val ds = foldl (\<lambda>acc c. 10 * acc + digit_val c) 0 ds"

text \<open>
  An underscore is accepted only between two digits (Python 3.6 and later) and is then
  dropped: \<open>prev\<close> is the character before the current one, if any.
\<close>

fun underscores_ok :: "char option \<Rightarrow> string \<Rightarrow> bool" where
  "underscores_ok prev [] = (prev \<noteq> Some CHR ''_'')"
| "underscores_ok prev (c # cs) =
     ((if c = CHR ''_'' then (case prev of Some p \<Rightarrow> is_digit p | None \<Rightarrow> False)
       else (prev = Some CHR ''_'' \<longrightarrow> is_digit c))
      \<and> underscores_ok (Some c) cs)"

definition split_sign :: "string \<Rightarrow> bool \<times> string" where
  "split_sign s = (case s of
       c # cs \<Rightarrow> if c = CHR ''-'' then (True, cs)
                 else if c = CHR ''+'' then (False, cs) else (False, s)
     | [] \<Rightarrow> (False, s))"

text \<open>
  The exponent part: empty, or \<open>e\<close>/\<open>E\<close>, an optional sign and at least one digit.
\<close>

definition parse_exponent :: "string \<Rightarrow> int option" where
  "parse_exponent s = (case s of
       [] \<Rightarrow> Some 0
     | c # cs \<Rightarrow>
         if c = CHR ''e'' \<or> c = CHR ''E'' then
           (let (neg, ds) = split_sign cs in
            if ds \<noteq> [] \<and> list_all is_digit ds
            then Some (if neg then - digits_val ds else digits_val ds)
            else None)
         else None)"

text \<open>
  An unsigned decimal literal: digits, an optional point, digits, with a digit on at
  least one side of the point, then the exponent part. The result is the exact value.
\<close>

definition parse_decimal :: "string \<Rightarrow> rat option" where
  "parse_decimal s =
     (let ip = takeWhile is_digit s;
          r1 = dropWhile is_digit s;
          has_point = (r1 \<noteq> [] \<and> hd r1 = CHR ''.'');
          r2 = (if has_point then tl r1 else r1);
          fp = (if has_point then takeWhile is_digit r2 else []);
          r3 = (if has_point then dropWhile is_digit r2 else r2)
      in if ip = [] \<and> fp = [] then None
         else (case parse_exponent r3 of
                 None \<Rightarrow> None
               | Some ex \<Rightarrow>
                   (let k = ex - int (length fp); m = digits_val (ip @ fp) in
                    Some (if 0 \<le> k then Fract (m * 10 ^ nat k) 1
                          else Fract m (10 ^ nat (- k))))))"

text \<open>
  \<open>float(s)\<close> for a string that \<open>str.strip\<close> has already trimmed (the white space
  \<open>float\<close> would skip itself is among what \<open>strip\<close> removes): a sign, then
  \<open>inf\<close>, \<open>infinity\<close> or \<open>nan\<close> in any case, or a decimal literal, correctly rounded.
  Anything else raises ValueError.
\<close>

definition py_float :: "string \<Rightarrow> error + pyfloat" where
  "py_float s =
     (if \<not> underscores_ok None s then Inl ValueError
      else let (neg, u) = split_sign (filter (\<lambda>c. c \<noteq> CHR ''_'') s) in
        if lower u = ''inf'' \<or> lower u = ''infinity'' then Inr (if neg then NInf else PInf)
        else if lower u = ''nan'' then Inr NaN
        else (case parse_decimal u of
                None \<Rightarrow> Inl ValueError
              | Some v \<Rightarrow> Inr (round_double (if neg then - v else v))))"

text \<open>\<open>int(x)\<close> for a float: truncation toward zero; infinities and NaN raise.\<close>

definition trunc_rat :: "rat \<Rightarrow> int" where
  "trunc_rat r = (if 0 \<le> r then \<lfloor>r\<rfloor> else \<lceil>r\<rceil>)"

definition py_int :: "pyfloat \<Rightarrow> error + int" where
  "py_int x = (case x of
       Finite r \<Rightarrow> Inr (trunc_rat r)
     | PInf \<Rightarrow> Inl OverflowError
     | NInf \<Rightarrow> Inl OverflowError
     | NaN \<Rightarrow> Inl ValueError)"

section \<open>PropertyRowParser.price\<close>

text \<open>\<open>int(float(price_string.replace(',', '').strip()))\<close>\<close>

definition price :: "string \<Rightarrow> error + int" where
  "price price_string = bindE (py_float (strip (remove_commas price_string))) py_int"

section \<open>Regular expressions\<close>

text \<open>
  The three patterns of run.py use literal text, a greedy \<open>+\<close> over a character class
  (named as a group or not) and a final \<open>$\<close>. A pattern is a list of such items.
  Matching is Python's: each \<open>+\<close> first takes the longest run and gives characters
  back one at a time while the rest of the pattern fails.
\<close>

datatype rx =
    Lit string
  | Plus "char \<Rightarrow> bool"
  | Group string "char \<Rightarrow> bool"
  | Dollar

type_synonym groups = "(string \<times> string) list"

fun first_some :: "'a option list \<Rightarrow> 'a option" where
  "first_some [] = None"
| "first_some (None # xs) = first_some xs"
| "first_some (Some v # xs) = Some v"

text \<open>The lengths a greedy \<open>+\<close> over class \<open>c\<close> tries at the head of \<open>s\<close>, longest first.\<close>

definition greedy_lengths :: "(char \<Rightarrow> bool) \<Rightarrow> string \<Rightarrow> nat list" where
  "greedy_lengths c s = rev [1 ..< Suc (length (takeWhile c s))]"

text \<open>
  \<open>rx_match p s\<close> is \<open>re.match(p, s)\<close>: the pattern is matched at the start of \<open>s\<close>
  and need not reach its end; the result holds the text of the named groups.
  \<open>$\<close> matches at the end of the string and just before a final newline.
\<close>

fun rx_match :: "rx list \<Rightarrow> string \<Rightarrow> groups option" where
  "rx_match [] s = Some []"
| "rx_match (Lit l # r) s =
     (if starts_with l s then rx_match r (drop (length l) s) else None)"
| "rx_match (Plus c # r) s =
     first_some (map (\<lambda>n. rx_match r (drop n s)) (greedy_lengths c s))"
| "rx_match (Group g c # r) s =
     first_some (map (\<lambda>n. map_option (\<lambda>gs. (g, take n s) # gs) (rx_match r (drop n s)))
                     (greedy_lengths c s))"
| "rx_match (Dollar # r) s =
     (if s = [] \<or> s = [newline] then rx_match r s else None)"

text \<open>\<open>re.search(p, s)\<close>: the first position, from the left, where the pattern matches.\<close>

fun rx_search :: "rx list \<Rightarrow> string \<Rightarrow> groups option" where
  "rx_search p [] = rx_match p []"
| "rx_search p (c # cs) =
     (case rx_match p (c # cs) of Some g \<Rightarrow> Some g | None \<Rightarrow> rx_search p cs)"

text \<open>\<open>match.group(name)\<close>; a name the match does not hold raises IndexError.\<close>

definition group :: "groups \<Rightarrow> string \<Rightarrow> error + string" where
  "group g name = (case map_of g name of None \<Rightarrow> Inl IndexError | Some v \<Rightarrow> Inr v)"

definition digit_comma :: "char \<Rightarrow> bool" where
  "digit_comma c = (is_digit c \<or> c = CHR '','')"

definition digit_comma_dot :: "char \<Rightarrow> bool" where
  "digit_comma_dot c = (is_digit c \<or> c = CHR '','' \<or> c = CHR ''.'')"

text \<open>The class of \<open>.\<close>: every character but the newline.\<close>

definition any_char :: "char \<Rightarrow> bool" where
  "any_char c = (c \<noteq> newline)"

text \<open>\<open>Guide Price: \<pounds>(?P<low>[0-9,]+).+\<pounds>(?P<high>[0-9,]+)\*$\<close>, with U+00A3 for the pound.\<close>

definition range_rx :: "rx list" where
  "range_rx = [Lit (''Guide Price: '' @ [pound]), Group ''low'' digit_comma, Plus any_char,
               Lit [pound], Group ''high'' digit_comma, Lit ''*'', Dollar]"

text \<open>\<open>Guide Price: \<pounds>(?P<price>[0-9,]+)\+\*$\<close>\<close>

definition single_rx :: "rx list" where
  "single_rx = [Lit (''Guide Price: '' @ [pound]), Group ''price'' digit_comma,
                Lit ''+*'', Dollar]"

text \<open>\<open>\<pounds>(?P<income>[0-9,.]+) per annum\<close>\<close>

definition income_rx :: "rx list" where
  "income_rx = [Lit [pound], Group ''income'' digit_comma_dot, Lit '' per annum'']"

section \<open>The fields read from the status and the description\<close>

text \<open>
  \<open>_parse_guide_price_range\<close>, as a function of the status text. The two members of
  the result are \<open>None\<close> or an integer each.
\<close>

definition parse_guide_price_range :: "string \<Rightarrow> error + (int option \<times> int option)" where
  "parse_guide_price_range status =
     (case rx_match range_rx status of
        Some m \<Rightarrow>
          bindE (group m ''low'') (\<lambda>lo. bindE (price lo) (\<lambda>l.
          bindE (group m ''high'') (\<lambda>hi. bindE (price hi) (\<lambda>h.
          Inr (Some l, Some h)))))
      | None \<Rightarrow>
          (case rx_match single_rx status of
             Some m \<Rightarrow>
               bindE (group m ''price'') (\<lambda>ps. bindE (price ps) (\<lambda>p.
               Inr (Some p, Some p)))
           | None \<Rightarrow> Inr (None, None)))"

definition has_assured_shorthold_tenancy :: "string \<Rightarrow> bool" where
  "has_assured_shorthold_tenancy description = contains ''assured shorthold'' (lower description)"

text \<open>\<open>ast_annual_income\<close>, as a function of the description; \<open>None\<close> is Python's None.\<close>

definition ast_annual_income :: "string \<Rightarrow> error + int option" where
  "ast_annual_income description =
     (if \<not> has_assured_shorthold_tenancy description then Inr None
      else (case rx_search income_rx description of
              Some m \<Rightarrow> bindE (group m ''income'') (\<lambda>a. bindE (price a) (\<lambda>v. Inr (Some v)))
            | None \<Rightarrow> Inr None))"

section \<open>Row dictionaries and the derived fields\<close>

text \<open>
  A row is a Python dict from field names to values; it is kept as an association list
  in insertion order. A value is None, a bool, an int, a float or a str.
\<close>

datatype pyval = PNone | PBool bool | PInt int | PFloat pyfloat | PStr string

type_synonym row = "(string \<times> pyval) list"

text \<open>\<open>row[key]\<close>: a missing key raises KeyError.\<close>

definition getitem :: "row \<Rightarrow> string \<Rightarrow> error + pyval" where
  "getitem r k = (case map_of r k of None \<Rightarrow> Inl KeyError | Some v \<Rightarrow> Inr v)"

text \<open>\<open>row[key] = value\<close>\<close>

fun setitem :: "row \<Rightarrow> string \<Rightarrow> pyval \<Rightarrow> row" where
  "setitem [] k v = [(k, v)]"
| "setitem ((k', v') # r) k v = (if k' = k then (k, v) # r else (k', v') # setitem r k v)"

text \<open>The truth value that \<open>if x:\<close> tests.\<close>

fun truthy :: "pyval \<Rightarrow> bool" where
  "truthy PNone = False"
| "truthy (PBool b) = b"
| "truthy (PInt i) = (i \<noteq> 0)"
| "truthy (PFloat x) = (x \<noteq> Finite 0)"
| "truthy (PStr s) = (s \<noteq> [])"

subsection \<open>True division\<close>

text \<open>\<open>float(i)\<close> for an int: the nearest float, or OverflowError when there is none.\<close>

definition int_to_float :: "int \<Rightarrow> error + pyfloat" where
  "int_to_float i = (case round_double (of_int i) of
       Finite r \<Rightarrow> Inr (Finite r) | _ \<Rightarrow> Inl OverflowError)"

text \<open>
  \<open>x / y\<close> for two floats: a zero divisor raises; otherwise the IEEE 754 quotient, which
  may be an infinity or NaN.
\<close>

definition float_truediv :: "pyfloat \<Rightarrow> pyfloat \<Rightarrow> error + pyfloat" where
  "float_truediv x y =
     (if y = Finite 0 then Inl ZeroDivisionError
      else Inr (case (x, y) of
          (NaN, _) \<Rightarrow> NaN
        | (_, NaN) \<Rightarrow> NaN
        | (Finite a, Finite b) \<Rightarrow> round_double (a / b)
        | (Finite a, _) \<Rightarrow> Finite 0
        | (PInf, Finite b) \<Rightarrow> (if 0 < b then PInf else NInf)
        | (NInf, Finite b) \<Rightarrow> (if 0 < b then NInf else PInf)
        | (_, _) \<Rightarrow> NaN))"

text \<open>
  \<open>a / b\<close> for two ints: the correctly rounded quotient; a zero divisor and a quotient
  too large for a float raise.
\<close>

definition int_truediv :: "int \<Rightarrow> int \<Rightarrow> error + pyfloat" where
  "int_truediv a b =
     (if b = 0 then Inl ZeroDivisionError
      else (case round_double (of_int a / of_int b) of
              Finite r \<Rightarrow> Inr (Finite r) | _ \<Rightarrow> Inl OverflowError))"

text \<open>An operand of \<open>/\<close> as a number: an int (a bool counts as 0 or 1) or a float.\<close>

fun as_number :: "pyval \<Rightarrow> (int + pyfloat) option" where
  "as_number (PInt i) = Some (Inl i)"
| "as_number (PBool b) = Some (Inl (if b then 1 else 0))"
| "as_number (PFloat x) = Some (Inr x)"
| "as_number PNone = None"
| "as_number (PStr s) = None"

definition to_float :: "int + pyfloat \<Rightarrow> error + pyfloat" where
  "to_float n = (case n of Inl i \<Rightarrow> int_to_float i | Inr x \<Rightarrow> Inr x)"

definition py_truediv :: "pyval \<Rightarrow> pyval \<Rightarrow> error + pyval" where
  "py_truediv a b =
     (case (as_number a, as_number b) of
        (Some (Inl i), Some (Inl j)) \<Rightarrow> bindE (int_truediv i j) (\<lambda>q. Inr (PFloat q))
      | (Some x, Some y) \<Rightarrow>
          bindE (to_float x) (\<lambda>fx. bindE (to_float y) (\<lambda>fy.
          bindE (float_truediv fx fy) (\<lambda>q. Inr (PFloat q))))
      | _ \<Rightarrow> Inl TypeError)"

text \<open>The float literals \<open>0.10\<close>, \<open>0.125\<close>, \<open>0.15\<close> and \<open>0.20\<close> of the source.\<close>

definition rate_10 :: pyfloat where "rate_10 = round_double (Fract 1 10)"
definition rate_12_5 :: pyfloat where "rate_12_5 = round_double (Fract 1 8)"
definition rate_15 :: pyfloat where "rate_15 = round_double (Fract 3 20)"
definition rate_20 :: pyfloat where "rate_20 = round_double (Fract 1 5)"

subsection \<open>add_calculations\<close>

text \<open>
  The source updates the dict in place; the model returns the updated row. An exception
  ends the run, so the partly updated dict is never seen.
\<close>

definition add_calculations :: "row \<Rightarrow> error + row" where
  "add_calculations row =
     bindE (getitem row ''ast_annual_income'') (\<lambda>annual_income.
     bindE (getitem row ''guide_price_high'') (\<lambda>guide_price_high.
     if truthy annual_income then
       bindE (py_truediv annual_income (PFloat rate_10)) (\<lambda>v1.
       bindE (py_truediv annual_income (PFloat rate_12_5)) (\<lambda>v2.
       bindE (py_truediv annual_income (PFloat rate_15)) (\<lambda>v3.
       bindE (py_truediv annual_income (PFloat rate_20)) (\<lambda>v4.
       let row4 = setitem (setitem (setitem (setitem row
                    ''_price_10pct_yield'' v1)
                    ''_price_12.5pct_yield'' v2)
                    ''_price_15pct_yield'' v3)
                    ''_price_20pct_yield'' v4
       in if truthy guide_price_high then
            bindE (py_truediv guide_price_high annual_income) (\<lambda>q.
            bindE (py_truediv q (PInt 100)) (\<lambda>y.
            Inr (setitem row4 ''_yield_guide_price_high'' y)))
          else Inr row4))))
     else Inr row))"

section \<open>The parsed page\<close>

text \<open>
  The tree \<open>lxml.html.fromstring\<close> returns: an element has a tag, attributes and child
  nodes; a child is an element or a run of text.
\<close>

datatype node = Text string | Element string "(string \<times> string) list" "node list"

fun children :: "node \<Rightarrow> node list" where
  "children (Text t) = []"
| "children (Element tg attrs kids) = kids"

fun has_tag :: "string \<Rightarrow> node \<Rightarrow> bool" where
  "has_tag tg (Text t) = False"
| "has_tag tg (Element tg' attrs kids) = (tg' = tg)"

text \<open>\<open>contains(@name, marker)\<close>: an element without the attribute does not qualify.\<close>

fun attr_contains :: "string \<Rightarrow> string \<Rightarrow> node \<Rightarrow> bool" where
  "attr_contains name marker (Text t) = False"
| "attr_contains name marker (Element tg attrs kids) =
     (case map_of attrs name of None \<Rightarrow> False | Some v \<Rightarrow> contains marker v)"

text \<open>\<open>element.attrib[name]\<close>\<close>

fun attrib :: "node \<Rightarrow> string \<Rightarrow> error + string" where
  "attrib (Text t) name = Inl KeyError"
| "attrib (Element tg attrs kids) name =
     (case map_of attrs name of None \<Rightarrow> Inl KeyError | Some v \<Rightarrow> Inr v)"

text \<open>\<open>text_content()\<close>: the text of the element and of everything below it, in order.\<close>

fun text_content :: "node \<Rightarrow> string" where
  "text_content (Text t) = t"
| "text_content (Element tg attrs kids) = concat (map text_content kids)"

text \<open>The elements strictly below a node, in document order (the axis of \<open>.//\<close>).\<close>

fun descendants :: "node \<Rightarrow> node list" where
  "descendants (Text t) = []"
| "descendants (Element tg attrs kids) =
     concat (map (\<lambda>k. case k of Text t \<Rightarrow> [] | Element a b c \<Rightarrow> k # descendants k) kids)"

text \<open>
  \<open>contains(text(), marker)\<close>: XPath turns the node set \<open>text()\<close> into the string of
  its first node, so only the first text child counts; with no text child the string is
  empty.
\<close>

fun first_text :: "node list \<Rightarrow> string" where
  "first_text [] = []"
| "first_text (Text t # ks) = t"
| "first_text (Element tg attrs kids # ks) = first_text ks"

definition text_contains :: "string \<Rightarrow> node \<Rightarrow> bool" where
  "text_contains marker n = contains marker (first_text (children n))"

text \<open>\<open>xs[i]\<close> for an index that is not negative.\<close>

definition index :: "'a list \<Rightarrow> nat \<Rightarrow> error + 'a" where
  "index xs i = (if i < length xs then Inr (xs ! i) else Inl IndexError)"

text \<open>
  A header row is handed over together with the nodes that follow it under the same
  parent, which is what \<open>./following-sibling::tr\<close> reads.
\<close>

type_synonym located = "node \<times> node list"

definition following_sibling_tr :: "located \<Rightarrow> node list" where
  "following_sibling_tr h = filter (has_tag ''tr'') (snd h)"

definition is_header :: "node \<Rightarrow> bool" where
  "is_header n = (has_tag ''tr'' n \<and> attr_contains ''id'' ''header_'' n)"

text \<open>
  \<open>//tr[contains(@id, 'header_')]\<close> over a list of sibling nodes and all below them, in
  document order.
\<close>

fun header_rows :: "node list \<Rightarrow> located list" where
  "header_rows [] = []"
| "header_rows (Text t # rest) = header_rows rest"
| "header_rows (Element tg attrs kids # rest) =
     (if is_header (Element tg attrs kids) then [(Element tg attrs kids, rest)] else [])
     @ header_rows kids @ header_rows rest"

section \<open>PropertyRowParser\<close>

record parser =
  header_tr :: node
  detail_tr :: node

text \<open>\<open>__init__\<close>: the detail row is element 0 of the following sibling rows.\<close>

definition init :: "located \<Rightarrow> error + parser" where
  "init h = bindE (index (following_sibling_tr h) 0)
              (\<lambda>d. Inr \<lparr>header_tr = fst h, detail_tr = d\<rparr>)"

text \<open>
  The static method \<open>text\<close> (here \<open>text_of\<close>) takes a list, which must hold one
  element, or an element; every call in run.py passes an element.
\<close>

datatype text_arg = OneElement node | ElementList "node list"

fun text_of :: "text_arg \<Rightarrow> error + string" where
  "text_of (ElementList xs) =
     (if length xs = 1 then Inr (strip (text_content (hd xs))) else Inl AssertionError)"
| "text_of (OneElement e) = Inr (strip (text_content e))"

definition make_absolute_url :: "string \<Rightarrow> string" where
  "make_absolute_url path = ''http://www.suttonkersh.co.uk'' @ path"

definition header_cell :: "parser \<Rightarrow> nat \<Rightarrow> error + string" where
  "header_cell p i =
     bindE (index (filter (has_tag ''td'') (children (header_tr p))) i)
       (\<lambda>td. text_of (OneElement td))"

definition lot_number :: "parser \<Rightarrow> error + string" where
  "lot_number p = header_cell p 0"

definition street_address :: "parser \<Rightarrow> error + string" where
  "street_address p = header_cell p 1"

definition postcode :: "parser \<Rightarrow> error + string" where
  "postcode p = header_cell p 2"

definition status :: "parser \<Rightarrow> error + string" where
  "status p = header_cell p 3"

text \<open>\<open>.//p[contains(@class, 'descriptionText')]\<close>\<close>

definition is_description_p :: "node \<Rightarrow> bool" where
  "is_description_p n = (has_tag ''p'' n \<and> attr_contains ''class'' ''descriptionText'' n)"

definition description :: "parser \<Rightarrow> error + string" where
  "description p =
     bindE (index (filter is_description_p (descendants (detail_tr p))) 0)
       (\<lambda>e. Inr (text_content e))"

definition guide_price_low :: "parser \<Rightarrow> error + int option" where
  "guide_price_low p =
     bindE (status p) (\<lambda>st. bindE (parse_guide_price_range st) (\<lambda>r. Inr (fst r)))"

definition guide_price_high :: "parser \<Rightarrow> error + int option" where
  "guide_price_high p =
     bindE (status p) (\<lambda>st. bindE (parse_guide_price_range st) (\<lambda>r. Inr (snd r)))"

definition has_ast :: "parser \<Rightarrow> error + bool" where
  "has_ast p = bindE (description p) (\<lambda>d. Inr (has_assured_shorthold_tenancy d))"

definition annual_income :: "parser \<Rightarrow> error + int option" where
  "annual_income p = bindE (description p) ast_annual_income"

definition detail_url :: "parser \<Rightarrow> error + string" where
  "detail_url p =
     bindE (index (filter (\<lambda>n. has_tag ''a'' n \<and> text_contains ''Details'' n)
                     (descendants (detail_tr p))) 0)
       (\<lambda>a. bindE (attrib a ''href'') (\<lambda>h. Inr (make_absolute_url h)))"

definition photo_url :: "parser \<Rightarrow> error + string" where
  "photo_url p =
     bindE (index (filter (\<lambda>n. has_tag ''img'' n \<and> attr_contains ''class'' ''lotImage'' n)
                     (descendants (detail_tr p))) 0)
       (\<lambda>i. bindE (attrib i ''src'') (\<lambda>s. Inr (make_absolute_url s)))"

definition opt_int :: "int option \<Rightarrow> pyval" where
  "opt_int v = (case v of None \<Rightarrow> PNone | Some i \<Rightarrow> PInt i)"

text \<open>\<open>as_dict\<close>: the values of the dict display are computed in the order written.\<close>

definition as_dict :: "parser \<Rightarrow> error + row" where
  "as_dict p =
     bindE (lot_number p) (\<lambda>v1.
     bindE (street_address p) (\<lambda>v2.
     bindE (postcode p) (\<lambda>v3.
     bindE (status p) (\<lambda>v4.
     bindE (description p) (\<lambda>v5.
     bindE (detail_url p) (\<lambda>v6.
     bindE (photo_url p) (\<lambda>v7.
     bindE (guide_price_low p) (\<lambda>v8.
     bindE (guide_price_high p) (\<lambda>v9.
     bindE (has_ast p) (\<lambda>v10.
     bindE (annual_income p) (\<lambda>v11.
     Inr [(''lot_number'', PStr v1),
          (''street_address'', PStr v2),
          (''postcode'', PStr v3),
          (''status'', PStr v4),
          (''description'', PStr v5),
          (''detail_url'', PStr v6),
          (''photo_url'', PStr v7),
          (''guide_price_low'', opt_int v8),
          (''guide_price_high'', opt_int v9),
          (''has_assured_shorthold_tenancy'', PBool v10),
          (''ast_annual_income'', opt_int v11)])))))))))))"

section \<open>get_rows_from_page\<close>

text \<open>
  The generator yields one row per header row, each computed when asked for; the list
  holds, per header row, the row or the exception its computation raises.
\<close>

definition get_row :: "located \<Rightarrow> error + row" where
  "get_row h = bindE (init h) (\<lambda>p. bindE (as_dict p) add_calculations)"

definition get_rows_from_page :: "node \<Rightarrow> (error + row) list" where
  "get_rows_from_page tree = map get_row (header_rows [tree])"

section \<open>output_csv\<close>

definition FIELDS :: "string list" where
  "FIELDS = [''lot_number'', ''street_address'', ''postcode'', ''status'',
             ''guide_price_low'', ''guide_price_high'', ''_yield_guide_price_high'',
             ''_price_10pct_yield'', ''_price_12.5pct_yield'', ''_price_15pct_yield'',
             ''_price_20pct_yield'', ''has_assured_shorthold_tenancy'',
             ''ast_annual_income'', ''description'', ''detail_url'', ''photo_url'']"

text \<open>\<open>str(i)\<close> for an int.\<close>

function nat_str :: "int \<Rightarrow> string" where
  "nat_str n = (if n < 10 then [char_of (48 + n)]
                else nat_str (n div 10) @ [char_of (48 + n mod 10)])"
  by pat_completeness auto
termination
  by (relation "measure nat") auto

definition int_str :: "int \<Rightarrow> string" where
  "int_str i = (if i < 0 then CHR ''-'' # nat_str (- i) else nat_str i)"

text \<open>
  The text the csv writer puts in a cell: nothing for None, a str as it is, \<open>str(v)\<close>
  for the rest. The \<open>repr\<close> of a float is a parameter, \<open>float_repr\<close>.
\<close>

fun cell_text :: "(pyfloat \<Rightarrow> string) \<Rightarrow> pyval \<Rightarrow> string" where
  "cell_text float_repr PNone = []"
| "cell_text float_repr (PStr s) = s"
| "cell_text float_repr (PBool b) = (if b then ''True'' else ''False'')"
| "cell_text float_repr (PInt i) = int_str i"
| "cell_text float_repr (PFloat x) = float_repr x"

definition quote_char :: char where
  "quote_char = CHR 0x22"

definition carriage_return :: char where
  "carriage_return = CHR 0x0D"

text \<open>
  The excel dialect with minimal quoting: a cell holding the delimiter, the quote
  character, a carriage return or a newline is put in quotes, its quotes doubled.
\<close>

definition needs_quotes :: "string \<Rightarrow> bool" where
  "needs_quotes s = list_ex (\<lambda>c. c \<in> set [CHR '','', quote_char, carriage_return, newline]) s"

definition quote_field :: "string \<Rightarrow> string" where
  "quote_field s =
     (if needs_quotes s
      then quote_char # concat (map (\<lambda>c. if c = quote_char then [c, c] else [c]) s) @ [quote_char]
      else s)"

fun join :: "string \<Rightarrow> string list \<Rightarrow> string" where
  "join sep [] = []"
| "join sep [x] = x"
| "join sep (x # y # r) = x @ sep @ join sep (y # r)"

definition csv_line :: "string list \<Rightarrow> string" where
  "csv_line cells = join '','' (map quote_field cells) @ [carriage_return, newline]"

text \<open>The 16 cells of a row: a key the row lacks gives the empty cell (\<open>restval\<close>).\<close>

definition row_cells :: "(pyfloat \<Rightarrow> string) \<Rightarrow> row \<Rightarrow> string list" where
  "row_cells float_repr r =
     map (\<lambda>k. case map_of r k of None \<Rightarrow> [] | Some v \<Rightarrow> cell_text float_repr v) FIELDS"

text \<open>\<open>DictWriter.writerow\<close>: a key outside the field names raises ValueError.\<close>

definition writerow :: "(pyfloat \<Rightarrow> string) \<Rightarrow> row \<Rightarrow> error + string" where
  "writerow float_repr r =
     (if list_ex (\<lambda>k. k \<notin> set FIELDS) (map fst r) then Inl ValueError
      else Inr (csv_line (row_cells float_repr r)))"

text \<open>
  The loop of \<open>output_csv\<close> over the generator: the text written to standard output and
  the exception that ended the loop, if any.
\<close>

fun write_rows :: "(pyfloat \<Rightarrow> string) \<Rightarrow> (error + row) list \<Rightarrow> string \<times> error option" where
  "write_rows float_repr [] = ([], None)"
| "write_rows float_repr (Inl e # rest) = ([], Some e)"
| "write_rows float_repr (Inr r # rest) =
     (case writerow float_repr r of
        Inl e \<Rightarrow> ([], Some e)
      | Inr line \<Rightarrow>
          (case write_rows float_repr rest of (out, err) \<Rightarrow> (line @ out, err)))"

definition output_csv :: "(pyfloat \<Rightarrow> string) \<Rightarrow> (error + row) list \<Rightarrow> string \<times> error option" where
  "output_csv float_repr rows =
     (case write_rows float_repr rows of (out, err) \<Rightarrow> (csv_line FIELDS @ out, err))"

section \<open>html_from_url\<close>







section \<open>main\<close>

text \<open>
  \<open>main\<close> without a file name, from the response on: the snapshot afterwards, the text
  written to standard output and the exception that ended the run, if any. The parser
  \<open>lxml.html.fromstring\<close> is a parameter.
\<close>

definition run_page :: "(pyfloat \<Rightarrow> string) \<Rightarrow> node \<Rightarrow> string \<times> error option" where
  "run_page float_repr tree = output_csv float_repr (get_rows_from_page tree)"


text \<open>None of the five derived fields is a key of the row.\<close>

definition derived_absent :: "row \<Rightarrow> bool" where
  "derived_absent r =
     (map_of r ''_price_10pct_yield'' = None \<and> map_of r ''_price_12.5pct_yield'' = None \<and>
      map_of r ''_price_15pct_yield'' = None \<and> map_of r ''_price_20pct_yield'' = None \<and>
      map_of r ''_yield_guide_price_high'' = None)"

section \<open>Example inputs\<close>

definition ex_header :: node where
  "ex_header = Element ''tr'' [(''id'', ''header_7'')] []"

definition ex_tr :: node where
  "ex_tr = Element ''tr'' [] []"


definition ex_cell :: "string \<Rightarrow> node" where
  "ex_cell s = Element ''td'' [] [Text s]"

definition ex_header_row :: "string \<Rightarrow> node" where
  "ex_header_row st = Element ''tr'' [(''id'', ''header_1'')]
     [ex_cell ''1'', ex_cell ''2 High St'', ex_cell ''L1'', ex_cell st]"

definition ex_detail_row :: "string \<Rightarrow> node" where
  "ex_detail_row d = Element ''tr'' [] [Element ''td'' []
     [Element ''p'' [(''class'', ''descriptionText'')] [Text d],
      Element ''a'' [(''href'', ''/d'')] [Text ''Details''],
      Element ''img'' [(''class'', ''lotImage''), (''src'', ''/p'')] []]]"

definition ex_lot :: "string \<Rightarrow> string \<Rightarrow> located" where
  "ex_lot st d = (ex_header_row st, [ex_detail_row d])"

definition ex_row :: "string \<Rightarrow> string \<Rightarrow> pyval \<Rightarrow> pyval \<Rightarrow> bool \<Rightarrow> pyval \<Rightarrow> row" where
  "ex_row st d lo hi flag inc =
     [(''lot_number'', PStr ''1''), (''street_address'', PStr ''2 High St''),
      (''postcode'', PStr ''L1''), (''status'', PStr st), (''description'', PStr d),
      (''detail_url'', PStr ''http://www.suttonkersh.co.uk/d''),
      (''photo_url'', PStr ''http://www.suttonkersh.co.uk/p''),
      (''guide_price_low'', lo), (''guide_price_high'', hi),
      (''has_assured_shorthold_tenancy'', PBool flag), (''ast_annual_income'', inc)]"

definition ex_let :: "string \<Rightarrow> string" where
  "ex_let amount = ''assured shorthold '' @ [pound] @ amount @ '' per annum''"

definition ex_guide :: "string \<Rightarrow> string" where
  "ex_guide amount = ''Guide Price: '' @ [pound] @ amount @ ''+*''"

section \<open>Basic facts\<close>

lemma bindE_Inr_iff: "bindE m f = Inr v \<longleftrightarrow> (\<exists>x. m = Inr x \<and> f x = Inr v)"
  by (cases m) (simp_all add: bindE_def)

lemma bindE_Inl [simp]: "bindE (Inl e) f = Inl e"
  by (simp add: bindE_def)

lemma bindE_Inr [simp]: "bindE (Inr x) f = f x"
  by (simp add: bindE_def)

lemma write_rows_error:
  "Inl e \<in> set rows \<Longrightarrow> snd (write_rows float_repr rows) \<noteq> None"
proof (induction rows)
  case Nil
  then show ?case by simp
next
  case (Cons x rows)
  show ?case
  proof (cases x)
    case (Inl e')
    then show ?thesis by simp
  next
    case (Inr r)
    with Cons show ?thesis
      by (auto split: sum.splits prod.splits)
  qed
qed

lemma header_rows_is_header: "h \<in> set (header_rows ns) \<Longrightarrow> is_header (fst h)"
  by (induction ns rule: header_rows.induct) (auto split: if_splits)

lemma init_empty: "following_sibling_tr h = [] \<Longrightarrow> init h = Inl IndexError"
  by (simp add: init_def index_def)

lemma init_first:
  "following_sibling_tr h = d # ds \<Longrightarrow> init h = Inr \<lparr>header_tr = fst h, detail_tr = d\<rparr>"
  by (simp add: init_def index_def)

lemma run_page_error:
  assumes "h \<in> set (header_rows [tree])" and "get_row h = Inl e"
  shows "snd (run_page float_repr tree) \<noteq> None"
proof -
  from assms have "Inl e \<in> set (get_rows_from_page tree)"
    by (force simp: get_rows_from_page_def)
  then have "snd (write_rows float_repr (get_rows_from_page tree)) \<noteq> None"
    by (rule write_rows_error)
  then show ?thesis
    by (cases "write_rows float_repr (get_rows_from_page tree)")
       (simp add: run_page_def output_csv_def)
qed

lemma map_of_setitem:
  "map_of (setitem r k v) k' = (if k' = k then Some v else map_of r k')"
  by (induction r k v rule: setitem.induct) auto

lemma getitem_Inr_iff: "getitem r k = Inr v \<longleftrightarrow> map_of r k = Some v"
  by (simp add: getitem_def split: option.splits)

lemma as_dict_Inr:
  assumes "as_dict p = Inr r"
  obtains v1 v2 v3 v4 v5 v6 v7 v8 v9 v10 v11 where
    "status p = Inr v4" "description p = Inr v5"
    "guide_price_low p = Inr v8" "guide_price_high p = Inr v9"
    "has_ast p = Inr v10" "annual_income p = Inr v11"
    "r = [(''lot_number'', PStr v1), (''street_address'', PStr v2), (''postcode'', PStr v3),
          (''status'', PStr v4), (''description'', PStr v5), (''detail_url'', PStr v6),
          (''photo_url'', PStr v7), (''guide_price_low'', opt_int v8),
          (''guide_price_high'', opt_int v9),
          (''has_assured_shorthold_tenancy'', PBool v10),
          (''ast_annual_income'', opt_int v11)]"
  using assms unfolding as_dict_def bindE_Inr_iff by blast

lemma get_row_Inr:
  assumes "get_row h = Inr r"
  obtains p r0 where "init h = Inr p" "as_dict p = Inr r0" "add_calculations r0 = Inr r"
  using assms unfolding get_row_def bindE_Inr_iff by blast

lemma add_calculations_falsy:
  assumes "map_of row ''ast_annual_income'' = Some a" "map_of row ''guide_price_high'' = Some g"
    and "\<not> truthy a"
  shows "add_calculations row = Inr row"
  using assms by (simp add: add_calculations_def getitem_def)

lemma add_calculations_truthy:
  assumes "map_of row ''ast_annual_income'' = Some a" "map_of row ''guide_price_high'' = Some g"
    and "truthy a" and "add_calculations row = Inr r"
  obtains v1 v2 v3 v4 row4 where
    "py_truediv a (PFloat rate_10) = Inr v1" "py_truediv a (PFloat rate_12_5) = Inr v2"
    "py_truediv a (PFloat rate_15) = Inr v3" "py_truediv a (PFloat rate_20) = Inr v4"
    "row4 = setitem (setitem (setitem (setitem row ''_price_10pct_yield'' v1)
              ''_price_12.5pct_yield'' v2) ''_price_15pct_yield'' v3) ''_price_20pct_yield'' v4"
    "\<not> truthy g \<longrightarrow> r = row4"
    "truthy g \<longrightarrow> (\<exists>q y. py_truediv g a = Inr q \<and> py_truediv q (PInt 100) = Inr y
        \<and> r = setitem row4 ''_yield_guide_price_high'' y)"
proof -
  from assms(4) assms(1-3)
  have "\<exists>v1 v2 v3 v4. py_truediv a (PFloat rate_10) = Inr v1 \<and> py_truediv a (PFloat rate_12_5) = Inr v2
     \<and> py_truediv a (PFloat rate_15) = Inr v3 \<and> py_truediv a (PFloat rate_20) = Inr v4
     \<and> (if truthy g then
            (\<exists>q y. py_truediv g a = Inr q \<and> py_truediv q (PInt 100) = Inr y
              \<and> r = setitem (setitem (setitem (setitem (setitem row ''_price_10pct_yield'' v1)
              ''_price_12.5pct_yield'' v2) ''_price_15pct_yield'' v3) ''_price_20pct_yield'' v4)
                  ''_yield_guide_price_high'' y)
         else r = setitem (setitem (setitem (setitem row ''_price_10pct_yield'' v1)
              ''_price_12.5pct_yield'' v2) ''_price_15pct_yield'' v3) ''_price_20pct_yield'' v4)"
    by (auto simp add: add_calculations_def getitem_def bindE_Inr_iff Let_def split: if_splits)
  then show ?thesis using that by (metis (full_types))
qed

lemma add_calculations_other_keys:
  assumes "add_calculations row = Inr r"
    and "k \<noteq> ''_price_10pct_yield''" "k \<noteq> ''_price_12.5pct_yield''"
        "k \<noteq> ''_price_15pct_yield''" "k \<noteq> ''_price_20pct_yield''"
        "k \<noteq> ''_yield_guide_price_high''"
  shows "map_of r k = map_of row k"
  using assms
  by (auto simp add: add_calculations_def bindE_Inr_iff Let_def map_of_setitem split: if_splits)

lemma has_ast_Inr: "description p = Inr d \<Longrightarrow> has_ast p = Inr (has_assured_shorthold_tenancy d)"
  by (simp add: has_ast_def)

lemma annual_income_Inr: "description p = Inr d \<Longrightarrow> annual_income p = ast_annual_income d"
  by (simp add: annual_income_def)

text \<open>What a computed row holds before and after the derived fields are added.\<close>

lemma get_row_fields:
  assumes "get_row h = Inr r"
  obtains p d v9 v11 r0 where
    "init h = Inr p" "description p = Inr d"
    "guide_price_high p = Inr v9" "ast_annual_income d = Inr v11"
    "as_dict p = Inr r0" "add_calculations r0 = Inr r"
    "derived_absent r0"
    "map_of r0 ''ast_annual_income'' = Some (opt_int v11)"
    "map_of r0 ''guide_price_high'' = Some (opt_int v9)"
    "map_of r0 ''description'' = Some (PStr d)"
    "map_of r0 ''has_assured_shorthold_tenancy'' = Some (PBool (has_assured_shorthold_tenancy d))"
proof -
  from assms obtain p r0 where 1: "init h = Inr p" "as_dict p = Inr r0" "add_calculations r0 = Inr r"
    by (rule get_row_Inr)
  from 1(2) obtain v1 v2 v3 v4 v5 v6 v7 v8 v9 v10 v11 where 2:
    "description p = Inr v5" "guide_price_high p = Inr v9"
    "has_ast p = Inr v10" "annual_income p = Inr v11"
    "r0 = [(''lot_number'', PStr v1), (''street_address'', PStr v2), (''postcode'', PStr v3),
          (''status'', PStr v4), (''description'', PStr v5), (''detail_url'', PStr v6),
          (''photo_url'', PStr v7), (''guide_price_low'', opt_int v8),
          (''guide_price_high'', opt_int v9),
          (''has_assured_shorthold_tenancy'', PBool v10),
          (''ast_annual_income'', opt_int v11)]"
    by (rule as_dict_Inr)
  from 2(1,3) have 3: "v10 = has_assured_shorthold_tenancy v5"
    by (simp add: has_ast_def)
  from 2(1,4) have 4: "ast_annual_income v5 = Inr v11"
    by (simp add: annual_income_def)
  have 5: "derived_absent r0"
    unfolding 2(5) derived_absent_def by simp
  have 6: "map_of r0 ''ast_annual_income'' = Some (opt_int v11)"
    "map_of r0 ''guide_price_high'' = Some (opt_int v9)"
    "map_of r0 ''description'' = Some (PStr v5)"
    "map_of r0 ''has_assured_shorthold_tenancy'' = Some (PBool (has_assured_shorthold_tenancy v5))"
    unfolding 2(5) 3 by simp_all
  from 1(1) 2(1,2) 4 1(2,3) 5 6 show ?thesis by (rule that)
qed

lemma ast_annual_income_no_flag:
  "\<not> has_assured_shorthold_tenancy d \<Longrightarrow> ast_annual_income d = Inr None"
  by (simp add: ast_annual_income_def)



subsection \<open>The example rows, computed\<close>

lemma ex_vacant_row:
  "get_row (ex_lot ''Sold'' '' Two bed '') = Inr (ex_row ''Sold'' '' Two bed '' PNone PNone False PNone)"
  by code_simp

lemma ex_zero_income_row:
  "get_row (ex_lot ''Sold'' (ex_let ''0'')) = Inr (ex_row ''Sold'' (ex_let ''0'') PNone PNone True (PInt 0))"
  by code_simp

lemma ex_zero_guide_row:
  "get_row (ex_lot (ex_guide ''0'') (ex_let ''3''))
   = Inr (ex_row (ex_guide ''0'') (ex_let ''3'') (PInt 0) (PInt 0) True (PInt 3)
          @ [(''_price_10pct_yield'', PFloat (Finite 30)),
             (''_price_12.5pct_yield'', PFloat (Finite 24)),
             (''_price_15pct_yield'', PFloat (Finite 20)),
             (''_price_20pct_yield'', PFloat (Finite 15))])"
  by code_simp

lemma ex_let_row:
  "get_row (ex_lot (ex_guide ''90'') (ex_let ''3''))
   = Inr (ex_row (ex_guide ''90'') (ex_let ''3'') (PInt 90) (PInt 90) True (PInt 3)
          @ [(''_price_10pct_yield'', PFloat (Finite 30)),
             (''_price_12.5pct_yield'', PFloat (Finite 24)),
             (''_price_15pct_yield'', PFloat (Finite 20)),
             (''_price_20pct_yield'', PFloat (Finite 15)),
             (''_yield_guide_price_high'', PFloat (Finite (5404319552844595 / 2 ^ 54)))])"
  by code_simp


section \<open>The network fetch\<close>



section \<open>Pairing a header row with its detail row\<close>

text \<open>
  C6, as amended. Every row the selector finds is a \<open>tr\<close> whose \<open>id\<close> holds the
  marker. With no following sibling \<open>tr\<close> the pairing raises IndexError, the row fails
  and the run ends with an exception. With one or more, the first is the detail row and
  the pairing raises nothing.
\<close>

theorem detail_row_is_first_sibling:
  "(following_sibling_tr h = [] \<longrightarrow> init h = Inl IndexError \<and> get_row h = Inl IndexError)
   \<and> (following_sibling_tr h = d # ds \<longrightarrow> init h = Inr \<lparr>header_tr = fst h, detail_tr = d\<rparr>)
   \<and> (h \<in> set (header_rows [tree]) \<longrightarrow> is_header (fst h))
   \<and> (h \<in> set (header_rows [tree]) \<and> following_sibling_tr h = [] \<longrightarrow>
        snd (run_page float_repr tree) \<noteq> None)"
proof (intro conjI impI)
  assume "following_sibling_tr h = []"
  then show "init h = Inl IndexError" by (rule init_empty)
next
  assume "following_sibling_tr h = []"
  then show "get_row h = Inl IndexError" by (simp add: get_row_def init_empty)
next
  assume "following_sibling_tr h = d # ds"
  then show "init h = Inr \<lparr>header_tr = fst h, detail_tr = d\<rparr>" by (rule init_first)
next
  assume "h \<in> set (header_rows [tree])"
  then show "is_header (fst h)" by (rule header_rows_is_header)
next
  assume a: "h \<in> set (header_rows [tree]) \<and> following_sibling_tr h = []"
  then have "get_row h = Inl IndexError" by (simp add: get_row_def init_empty)
  with a show "snd (run_page float_repr tree) \<noteq> None"
    using run_page_error by blast
qed

theorem detail_row_is_first_sibling_witness:
  "following_sibling_tr (ex_header, []) = []
   \<and> init (ex_header, []) = Inl IndexError
   \<and> init (ex_header, [Text ''x'', ex_tr, ex_tr]) = Inr \<lparr>header_tr = ex_header, detail_tr = ex_tr\<rparr>
   \<and> (ex_header, []) \<in> set (header_rows [Element ''table'' [] [ex_tr, ex_header]])
   \<and> is_header ex_header
   \<and> snd (run_page (\<lambda>x. []) (Element ''table'' [] [ex_tr, ex_header])) \<noteq> None"
proof -
  have a: "following_sibling_tr (ex_header, []) = []"
    by (simp add: following_sibling_tr_def)
  have b: "following_sibling_tr (ex_header, [Text ''x'', ex_tr, ex_tr]) = ex_tr # [ex_tr]"
    by (simp add: following_sibling_tr_def ex_tr_def)
  have c: "(ex_header, []) \<in> set (header_rows [Element ''table'' [] [ex_tr, ex_header]])"
    by (simp add: ex_tr_def ex_header_def is_header_def)
  show ?thesis
    using a b c
      detail_row_is_first_sibling [of "(ex_header, [])" ex_tr "[]"
        "Element ''table'' [] [ex_tr, ex_header]" "\<lambda>x. []"]
      detail_row_is_first_sibling [of "(ex_header, [Text ''x'', ex_tr, ex_tr])" ex_tr "[ex_tr]"
        "Element ''table'' [] [ex_tr, ex_header]" "\<lambda>x. []"]
    by simp
qed

text \<open>
  C6 as stated fails: a header row followed by three sibling rows is paired with the
  first of them, without an error.
\<close>

theorem several_siblings_counterexample:
  "following_sibling_tr (ex_header, [ex_tr, ex_tr, ex_tr]) = [ex_tr, ex_tr, ex_tr]
   \<and> init (ex_header, [ex_tr, ex_tr, ex_tr]) = Inr \<lparr>header_tr = ex_header, detail_tr = ex_tr\<rparr>"
  by (simp add: following_sibling_tr_def init_def index_def ex_tr_def ex_header_def)

section \<open>Rows without an assured shorthold tenancy\<close>

text \<open>
  C3. A computed row whose tenancy flag is false holds None as \<open>ast_annual_income\<close>
  and none of the four yield-price fields nor the yield-ratio field.
\<close>

theorem no_tenancy_no_income_fields:
  "get_row h = Inr r \<and> map_of r ''has_assured_shorthold_tenancy'' = Some (PBool False) \<longrightarrow>
     map_of r ''ast_annual_income'' = Some PNone \<and> derived_absent r"
proof (intro impI, elim conjE)
  assume a: "get_row h = Inr r" and b: "map_of r ''has_assured_shorthold_tenancy'' = Some (PBool False)"
  from a obtain p d v9 v11 r0 where f:
    "ast_annual_income d = Inr v11"
    "add_calculations r0 = Inr r"
    "derived_absent r0"
    "map_of r0 ''ast_annual_income'' = Some (opt_int v11)"
    "map_of r0 ''guide_price_high'' = Some (opt_int v9)"
    "map_of r0 ''has_assured_shorthold_tenancy'' = Some (PBool (has_assured_shorthold_tenancy d))"
    by (rule get_row_fields)
  from f(2) have "map_of r ''has_assured_shorthold_tenancy'' = map_of r0 ''has_assured_shorthold_tenancy''"
    by (rule add_calculations_other_keys) simp_all
  with b f(6) have "\<not> has_assured_shorthold_tenancy d" by simp
  with f(1) have "v11 = None" by (simp add: ast_annual_income_no_flag)
  with f(4) have inc: "map_of r0 ''ast_annual_income'' = Some PNone" by (simp add: opt_int_def)
  from inc f(5) have "add_calculations r0 = Inr r0"
    by (rule add_calculations_falsy) simp
  with f(2) have "r = r0" by simp
  with inc f(3) show "map_of r ''ast_annual_income'' = Some PNone \<and> derived_absent r" by simp
qed

theorem no_tenancy_no_income_fields_witness:
  "get_row (ex_lot ''Sold'' '' Two bed '') = Inr (ex_row ''Sold'' '' Two bed '' PNone PNone False PNone)
   \<and> map_of (ex_row ''Sold'' '' Two bed '' PNone PNone False PNone) ''has_assured_shorthold_tenancy''
       = Some (PBool False)
   \<and> map_of (ex_row ''Sold'' '' Two bed '' PNone PNone False PNone) ''ast_annual_income'' = Some PNone
   \<and> derived_absent (ex_row ''Sold'' '' Two bed '' PNone PNone False PNone)"
proof -
  have b: "map_of (ex_row ''Sold'' '' Two bed '' PNone PNone False PNone) ''has_assured_shorthold_tenancy''
       = Some (PBool False)"
    by (simp add: ex_row_def)
  from ex_vacant_row b
    no_tenancy_no_income_fields [of "ex_lot ''Sold'' '' Two bed ''"
      "ex_row ''Sold'' '' Two bed '' PNone PNone False PNone"]
  show ?thesis by blast
qed

section \<open>The gate of the derived fields\<close>

text \<open>
  C10. \<open>add_calculations\<close> tests truth values, not presence: a computed row whose
  \<open>ast_annual_income\<close> is the integer 0 holds none of the five derived fields, and a
  row with a non-zero income whose \<open>guide_price_high\<close> is the integer 0 holds no
  yield-ratio field.
\<close>

theorem truthiness_gate:
  "(get_row h = Inr r \<and> map_of r ''ast_annual_income'' = Some (PInt 0) \<longrightarrow> derived_absent r)
   \<and> (get_row h = Inr r \<and> map_of r ''ast_annual_income'' = Some (PInt a) \<and> a \<noteq> 0
        \<and> map_of r ''guide_price_high'' = Some (PInt 0) \<longrightarrow>
      map_of r ''_yield_guide_price_high'' = None)"
proof (intro conjI impI; elim conjE)
  assume a: "get_row h = Inr r" and b: "map_of r ''ast_annual_income'' = Some (PInt 0)"
  from a obtain p d v9 v11 r0 where f:
    "add_calculations r0 = Inr r"
    "derived_absent r0"
    "map_of r0 ''ast_annual_income'' = Some (opt_int v11)"
    "map_of r0 ''guide_price_high'' = Some (opt_int v9)"
    by (rule get_row_fields)
  from f(1) have "map_of r ''ast_annual_income'' = map_of r0 ''ast_annual_income''"
    by (rule add_calculations_other_keys) simp_all
  with b have inc: "map_of r0 ''ast_annual_income'' = Some (PInt 0)" by simp
  from inc f(4) have "add_calculations r0 = Inr r0"
    by (rule add_calculations_falsy) simp
  with f(1) have "r = r0" by simp
  with f(2) show "derived_absent r" by simp
next
  assume a: "get_row h = Inr r" and b: "map_of r ''ast_annual_income'' = Some (PInt a)"
    and nz: "a \<noteq> 0" and g: "map_of r ''guide_price_high'' = Some (PInt 0)"
  from a obtain p d v9 v11 r0 where f:
    "add_calculations r0 = Inr r"
    "derived_absent r0"
    "map_of r0 ''ast_annual_income'' = Some (opt_int v11)"
    "map_of r0 ''guide_price_high'' = Some (opt_int v9)"
    by (rule get_row_fields)
  from f(1) have "map_of r ''ast_annual_income'' = map_of r0 ''ast_annual_income''"
    by (rule add_calculations_other_keys) simp_all
  with b have inc: "map_of r0 ''ast_annual_income'' = Some (PInt a)" by simp
  from f(1) have "map_of r ''guide_price_high'' = map_of r0 ''guide_price_high''"
    by (rule add_calculations_other_keys) simp_all
  with g have gph: "map_of r0 ''guide_price_high'' = Some (PInt 0)" by simp
  from nz have t: "truthy (PInt a)" by simp
  from inc gph t f(1) obtain v1 v2 v3 v4 row4 where c:
    "row4 = setitem (setitem (setitem (setitem r0 ''_price_10pct_yield'' v1)
              ''_price_12.5pct_yield'' v2) ''_price_15pct_yield'' v3) ''_price_20pct_yield'' v4"
    "\<not> truthy (PInt 0) \<longrightarrow> r = row4"
    by (rule add_calculations_truthy)
  from c(2) have "r = row4" by simp
  with c(1) f(2) show "map_of r ''_yield_guide_price_high'' = None"
    by (simp add: map_of_setitem derived_absent_def)
qed

theorem truthiness_gate_witness:
  "get_row (ex_lot ''Sold'' (ex_let ''0'')) = Inr (ex_row ''Sold'' (ex_let ''0'') PNone PNone True (PInt 0))
   \<and> derived_absent (ex_row ''Sold'' (ex_let ''0'') PNone PNone True (PInt 0))
   \<and> map_of (ex_row (ex_guide ''0'') (ex_let ''3'') (PInt 0) (PInt 0) True (PInt 3)
          @ [(''_price_10pct_yield'', PFloat (Finite 30)),
             (''_price_12.5pct_yield'', PFloat (Finite 24)),
             (''_price_15pct_yield'', PFloat (Finite 20)),
             (''_price_20pct_yield'', PFloat (Finite 15))]) ''_yield_guide_price_high'' = None"
proof -
  let ?r = "ex_row ''Sold'' (ex_let ''0'') PNone PNone True (PInt 0)"
  let ?s = "ex_row (ex_guide ''0'') (ex_let ''3'') (PInt 0) (PInt 0) True (PInt 3)
          @ [(''_price_10pct_yield'', PFloat (Finite 30)),
             (''_price_12.5pct_yield'', PFloat (Finite 24)),
             (''_price_15pct_yield'', PFloat (Finite 20)),
             (''_price_20pct_yield'', PFloat (Finite 15))]"
  have a: "map_of ?r ''ast_annual_income'' = Some (PInt 0)"
    by (simp add: ex_row_def)
  have b: "map_of ?s ''ast_annual_income'' = Some (PInt 3) \<and> (3::int) \<noteq> 0
           \<and> map_of ?s ''guide_price_high'' = Some (PInt 0)"
    by (simp add: ex_row_def)
  from ex_zero_income_row a truthiness_gate [of "ex_lot ''Sold'' (ex_let ''0'')" ?r]
  have 1: "derived_absent ?r" by blast
  from ex_zero_guide_row b truthiness_gate [of "ex_lot (ex_guide ''0'') (ex_let ''3'')" ?s 3]
  have 2: "map_of ?s ''_yield_guide_price_high'' = None" by blast
  from ex_zero_income_row 1 2 show ?thesis by blast
qed

section \<open>The values of the derived fields\<close>

text \<open>
  C2, as amended. In a computed row whose \<open>ast_annual_income\<close> is a non-zero integer,
  each of the four yield-price fields is the float Python's \<open>/\<close> gives for the income and
  the rate 0.10, 0.125, 0.15 or 0.20. When \<open>guide_price_high\<close> is a non-zero integer
  as well, the yield-ratio field is \<open>(guide_price_high / ast_annual_income) / 100\<close>, again
  with Python's division.
\<close>

theorem yield_fields_are_quotients:
  "(get_row h = Inr r \<and> map_of r ''ast_annual_income'' = Some (PInt a) \<and> a \<noteq> 0 \<longrightarrow>
      (\<exists>v1 v2 v3 v4.
         py_truediv (PInt a) (PFloat rate_10) = Inr v1 \<and> map_of r ''_price_10pct_yield'' = Some v1 \<and>
         py_truediv (PInt a) (PFloat rate_12_5) = Inr v2 \<and> map_of r ''_price_12.5pct_yield'' = Some v2 \<and>
         py_truediv (PInt a) (PFloat rate_15) = Inr v3 \<and> map_of r ''_price_15pct_yield'' = Some v3 \<and>
         py_truediv (PInt a) (PFloat rate_20) = Inr v4 \<and> map_of r ''_price_20pct_yield'' = Some v4))
   \<and> (get_row h = Inr r \<and> map_of r ''ast_annual_income'' = Some (PInt a) \<and> a \<noteq> 0
        \<and> map_of r ''guide_price_high'' = Some (PInt g) \<and> g \<noteq> 0 \<longrightarrow>
      (\<exists>q y. py_truediv (PInt g) (PInt a) = Inr q \<and> py_truediv q (PInt 100) = Inr y
         \<and> map_of r ''_yield_guide_price_high'' = Some y))"
proof -
  have main: "(\<exists>v1 v2 v3 v4.
         py_truediv (PInt a) (PFloat rate_10) = Inr v1 \<and> map_of r ''_price_10pct_yield'' = Some v1 \<and>
         py_truediv (PInt a) (PFloat rate_12_5) = Inr v2 \<and> map_of r ''_price_12.5pct_yield'' = Some v2 \<and>
         py_truediv (PInt a) (PFloat rate_15) = Inr v3 \<and> map_of r ''_price_15pct_yield'' = Some v3 \<and>
         py_truediv (PInt a) (PFloat rate_20) = Inr v4 \<and> map_of r ''_price_20pct_yield'' = Some v4)
      \<and> (\<forall>g. map_of r ''guide_price_high'' = Some (PInt g) \<and> g \<noteq> 0 \<longrightarrow>
           (\<exists>q y. py_truediv (PInt g) (PInt a) = Inr q \<and> py_truediv q (PInt 100) = Inr y
              \<and> map_of r ''_yield_guide_price_high'' = Some y))"
    if a: "get_row h = Inr r" and b: "map_of r ''ast_annual_income'' = Some (PInt a)" and nz: "a \<noteq> 0"
  proof -
    from a obtain p d v9 v11 r0 where f:
      "add_calculations r0 = Inr r"
      "map_of r0 ''ast_annual_income'' = Some (opt_int v11)"
      "map_of r0 ''guide_price_high'' = Some (opt_int v9)"
      by (rule get_row_fields)
    from f(1) have "map_of r ''ast_annual_income'' = map_of r0 ''ast_annual_income''"
      by (rule add_calculations_other_keys) simp_all
    with b have inc: "map_of r0 ''ast_annual_income'' = Some (PInt a)" by simp
    from f(1) have gk: "map_of r ''guide_price_high'' = map_of r0 ''guide_price_high''"
      by (rule add_calculations_other_keys) simp_all
    from nz have t: "truthy (PInt a)" by simp
    from inc f(3) t f(1) obtain v1 v2 v3 v4 row4 where c:
      "py_truediv (PInt a) (PFloat rate_10) = Inr v1" "py_truediv (PInt a) (PFloat rate_12_5) = Inr v2"
      "py_truediv (PInt a) (PFloat rate_15) = Inr v3" "py_truediv (PInt a) (PFloat rate_20) = Inr v4"
      "row4 = setitem (setitem (setitem (setitem r0 ''_price_10pct_yield'' v1)
              ''_price_12.5pct_yield'' v2) ''_price_15pct_yield'' v3) ''_price_20pct_yield'' v4"
      "\<not> truthy (opt_int v9) \<longrightarrow> r = row4"
      "truthy (opt_int v9) \<longrightarrow> (\<exists>q y. py_truediv (opt_int v9) (PInt a) = Inr q
          \<and> py_truediv q (PInt 100) = Inr y \<and> r = setitem row4 ''_yield_guide_price_high'' y)"
      by (rule add_calculations_truthy)
    have four: "map_of row4 ''_price_10pct_yield'' = Some v1 \<and> map_of row4 ''_price_12.5pct_yield'' = Some v2
      \<and> map_of row4 ''_price_15pct_yield'' = Some v3 \<and> map_of row4 ''_price_20pct_yield'' = Some v4"
      unfolding c(5) by (simp add: map_of_setitem)
    have r4: "map_of r ''_price_10pct_yield'' = Some v1 \<and> map_of r ''_price_12.5pct_yield'' = Some v2
      \<and> map_of r ''_price_15pct_yield'' = Some v3 \<and> map_of r ''_price_20pct_yield'' = Some v4"
    proof (cases "truthy (opt_int v9)")
      case True
      from c(7) True obtain y where "r = setitem row4 ''_yield_guide_price_high'' y" by blast
      with four show ?thesis by (simp add: map_of_setitem)
    next
      case False
      from c(6) False four show ?thesis by simp
    qed
    have ratio: "\<exists>q y. py_truediv (PInt g) (PInt a) = Inr q \<and> py_truediv q (PInt 100) = Inr y
              \<and> map_of r ''_yield_guide_price_high'' = Some y"
      if g: "map_of r ''guide_price_high'' = Some (PInt g)" "g \<noteq> 0" for g
    proof -
      from g(1) gk f(3) have v9: "opt_int v9 = PInt g" by simp
      with g(2) have "truthy (opt_int v9)" by simp
      with c(7) v9 show ?thesis by (auto simp: map_of_setitem)
    qed
    from c(1-4) r4 ratio show ?thesis by blast
  qed
  then show ?thesis by blast
qed

theorem yield_fields_are_quotients_witness:
  "get_row (ex_lot (ex_guide ''90'') (ex_let ''3''))
   = Inr (ex_row (ex_guide ''90'') (ex_let ''3'') (PInt 90) (PInt 90) True (PInt 3)
          @ [(''_price_10pct_yield'', PFloat (Finite 30)),
             (''_price_12.5pct_yield'', PFloat (Finite 24)),
             (''_price_15pct_yield'', PFloat (Finite 20)),
             (''_price_20pct_yield'', PFloat (Finite 15)),
             (''_yield_guide_price_high'', PFloat (Finite (5404319552844595 / 2 ^ 54)))])
   \<and> py_truediv (PInt 3) (PFloat rate_10) = Inr (PFloat (Finite 30))
   \<and> py_truediv (PInt 3) (PFloat rate_12_5) = Inr (PFloat (Finite 24))
   \<and> py_truediv (PInt 3) (PFloat rate_15) = Inr (PFloat (Finite 20))
   \<and> py_truediv (PInt 3) (PFloat rate_20) = Inr (PFloat (Finite 15))
   \<and> py_truediv (PInt 90) (PInt 3) = Inr (PFloat (Finite 30))
   \<and> py_truediv (PFloat (Finite 30)) (PInt 100) = Inr (PFloat (Finite (5404319552844595 / 2 ^ 54)))"
proof -
  let ?r = "ex_row (ex_guide ''90'') (ex_let ''3'') (PInt 90) (PInt 90) True (PInt 3)
          @ [(''_price_10pct_yield'', PFloat (Finite 30)),
             (''_price_12.5pct_yield'', PFloat (Finite 24)),
             (''_price_15pct_yield'', PFloat (Finite 20)),
             (''_price_20pct_yield'', PFloat (Finite 15)),
             (''_yield_guide_price_high'', PFloat (Finite (5404319552844595 / 2 ^ 54)))]"
  have b: "map_of ?r ''ast_annual_income'' = Some (PInt 3) \<and> (3::int) \<noteq> 0
           \<and> map_of ?r ''guide_price_high'' = Some (PInt 90) \<and> (90::int) \<noteq> 0"
    by (simp add: ex_row_def)
  have f: "map_of ?r ''_price_10pct_yield'' = Some (PFloat (Finite 30))"
    "map_of ?r ''_price_12.5pct_yield'' = Some (PFloat (Finite 24))"
    "map_of ?r ''_price_15pct_yield'' = Some (PFloat (Finite 20))"
    "map_of ?r ''_price_20pct_yield'' = Some (PFloat (Finite 15))"
    "map_of ?r ''_yield_guide_price_high'' = Some (PFloat (Finite (5404319552844595 / 2 ^ 54)))"
    by (simp_all add: ex_row_def)
  from ex_let_row b yield_fields_are_quotients [of "ex_lot (ex_guide ''90'') (ex_let ''3'')" ?r 3 90]
  have 1: "\<exists>v1 v2 v3 v4.
         py_truediv (PInt 3) (PFloat rate_10) = Inr v1 \<and> map_of ?r ''_price_10pct_yield'' = Some v1 \<and>
         py_truediv (PInt 3) (PFloat rate_12_5) = Inr v2 \<and> map_of ?r ''_price_12.5pct_yield'' = Some v2 \<and>
         py_truediv (PInt 3) (PFloat rate_15) = Inr v3 \<and> map_of ?r ''_price_15pct_yield'' = Some v3 \<and>
         py_truediv (PInt 3) (PFloat rate_20) = Inr v4 \<and> map_of ?r ''_price_20pct_yield'' = Some v4"
    and 2: "\<exists>q y. py_truediv (PInt 90) (PInt 3) = Inr q \<and> py_truediv q (PInt 100) = Inr y
         \<and> map_of ?r ''_yield_guide_price_high'' = Some y"
    by blast+
  have q: "py_truediv (PInt 90) (PInt 3) = Inr (PFloat (Finite 30))"
    by code_simp
  from 1 f(1-4) have 3: "py_truediv (PInt 3) (PFloat rate_10) = Inr (PFloat (Finite 30))
   \<and> py_truediv (PInt 3) (PFloat rate_12_5) = Inr (PFloat (Finite 24))
   \<and> py_truediv (PInt 3) (PFloat rate_15) = Inr (PFloat (Finite 20))
   \<and> py_truediv (PInt 3) (PFloat rate_20) = Inr (PFloat (Finite 15))"
    by auto
  from 2 q f(5) have 4: "py_truediv (PFloat (Finite 30)) (PInt 100) = Inr (PFloat (Finite (5404319552844595 / 2 ^ 54)))"
    by auto
  from ex_let_row 3 q 4 show ?thesis by blast
qed

text \<open>
  C2 as stated fails: the lot let at 0 pounds per annum has its income present, and its row
  holds no \<open>_price_10pct_yield\<close>, where the claim asks for \<open>0 / 0.10\<close>, that is 0.0.
\<close>

theorem zero_income_counterexample:
  "get_row (ex_lot ''Sold'' (ex_let ''0'')) = Inr (ex_row ''Sold'' (ex_let ''0'') PNone PNone True (PInt 0))
   \<and> map_of (ex_row ''Sold'' (ex_let ''0'') PNone PNone True (PInt 0)) ''ast_annual_income'' = Some (PInt 0)
   \<and> map_of (ex_row ''Sold'' (ex_let ''0'') PNone PNone True (PInt 0)) ''_price_10pct_yield'' = None
   \<and> py_truediv (PInt 0) (PFloat rate_10) = Inr (PFloat (Finite 0))"
proof -
  have "py_truediv (PInt 0) (PFloat rate_10) = Inr (PFloat (Finite 0))"
    by code_simp
  with ex_zero_income_row show ?thesis
    by (simp add: ex_row_def)
qed

section \<open>The description field\<close>




end
